theory Spec2Isabelle
  imports Main "HOL-Library.Sublist" "HOL-Library.Product_Lexorder"
begin

section \<open>Values\<close>

text \<open>
  JSON values as Python sees them after parsing: \<open>JNull\<close> is Python's \<open>None\<close>, a
  \<open>JObj\<close> is a \<open>dict\<close> (its items, looked up with \<open>map_of\<close>), a \<open>JList\<close> is a
  \<open>list\<close>. Numbers are Python integers; no branch of app.py looks at a number other
  than through its truth value.
\<close>

datatype json =
    JNull
  | JBool bool
  | JInt int
  | JStr string
  | JList "json list"
  | JObj "(string \<times> json) list"

text \<open>Python's truth value of an object, as \<open>not x\<close> and \<open>x or y\<close> use it.\<close>

fun truthy :: "json \<Rightarrow> bool" where
  "truthy JNull = False"
| "truthy (JBool b) = b"
| "truthy (JInt i) = (i \<noteq> 0)"
| "truthy (JStr s) = (s \<noteq> [])"
| "truthy (JList xs) = (xs \<noteq> [])"
| "truthy (JObj kvs) = (kvs \<noteq> [])"

definition py_or :: "json \<Rightarrow> json \<Rightarrow> json" where
  "py_or x y = (if truthy x then x else y)"

fun py_type_name :: "json \<Rightarrow> string" where
  "py_type_name JNull = ''NoneType''"
| "py_type_name (JBool b) = ''bool''"
| "py_type_name (JInt i) = ''int''"
| "py_type_name (JStr s) = ''str''"
| "py_type_name (JList xs) = ''list''"
| "py_type_name (JObj kvs) = ''dict''"

text \<open>
  The exceptions a handler can meet: \<open>AttributeError t a\<close> (an object of type \<open>t\<close> has
  no attribute \<open>a\<close>) and \<open>PyMongoError msg\<close>, raised by a driver call, whose
  \<open>str()\<close> is \<open>msg\<close>.
\<close>

datatype exn = AttributeError string string | PyMongoError string

fun exn_str :: "exn \<Rightarrow> string" where
  "exn_str (AttributeError t a) =
     [CHR 0x27] @ t @ [CHR 0x27] @ '' object has no attribute '' @ [CHR 0x27] @ a @ [CHR 0x27]"
| "exn_str (PyMongoError msg) = msg"

text \<open>\<open>data.get(k)\<close>: only a dict has the method; a missing key gives \<open>None\<close>.\<close>

definition dict_get :: "json \<Rightarrow> string \<Rightarrow> exn + json" where
  "dict_get data k =
     (case data of
        JObj kvs \<Rightarrow> Inr (case map_of kvs k of None \<Rightarrow> JNull | Some v \<Rightarrow> v)
      | _ \<Rightarrow> Inl (AttributeError (py_type_name data) ''get''))"

section \<open>Timestamps\<close>

text \<open>
  A naive \<open>datetime\<close>, as \<open>datetime.utcnow()\<close> returns it. Python compares two of them
  field by field, most significant first.
\<close>

record datetime =
  year :: nat
  month :: nat
  day :: nat
  hour :: nat
  minute :: nat
  second :: nat
  microsecond :: nat

definition dt_key :: "datetime \<Rightarrow> nat \<times> nat \<times> nat \<times> nat \<times> nat \<times> nat \<times> nat" where
  "dt_key t = (year t, month t, day t, hour t, minute t, second t, microsecond t)"

definition dt_le :: "datetime \<Rightarrow> datetime \<Rightarrow> bool" where
  "dt_le a b = (dt_key a \<le> dt_key b)"

definition digit :: "nat \<Rightarrow> char" where
  "digit n = ''0123456789'' ! (n mod 10)"

text \<open>\<open>zpad w n\<close>: the last \<open>w\<close> decimal digits of \<open>n\<close>, which is \<open>'%0wd' % n\<close> for \<open>n < 10 ^ w\<close>.\<close>

fun zpad :: "nat \<Rightarrow> nat \<Rightarrow> string" where
  "zpad 0 n = []"
| "zpad (Suc w) n = zpad w (n div 10) @ [digit n]"

text \<open>\<open>datetime.isoformat()\<close>: the fraction is printed only when it is not zero.\<close>

definition isoformat :: "datetime \<Rightarrow> string" where
  "isoformat t =
     zpad 4 (year t) @ ''-'' @ zpad 2 (month t) @ ''-'' @ zpad 2 (day t) @ ''T'' @
     zpad 2 (hour t) @ '':'' @ zpad 2 (minute t) @ '':'' @ zpad 2 (second t) @
     (if microsecond t = 0 then [] else ''.'' @ zpad 6 (microsecond t))"

text \<open>
  A BSON datetime counts milliseconds since the epoch: the driver drops what is below a
  millisecond when it writes a datetime, and a document read back carries that value.
\<close>

definition bson_datetime :: "datetime \<Rightarrow> datetime" where
  "bson_datetime t = t\<lparr>microsecond := (microsecond t div 1000) * 1000\<rparr>"

section \<open>Requests, responses and the environment of one request\<close>

text \<open>
  What a handler reads of the request: the headers, and the body as
  \<open>request.get_json(silent=True)\<close> sees it (\<open>None\<close> when the body is not JSON or does
  not parse, otherwise the parsed value).
\<close>

record request =
  headers :: "string \<rightharpoonup> string"
  json_body :: "json option"

definition get_json_silent :: "request \<Rightarrow> json" where
  "get_json_silent req = (case json_body req of None \<Rightarrow> JNull | Some v \<Rightarrow> v)"

text \<open>
  A handler returns a body and a status, or an exception leaves it uncaught.
\<close>

datatype outcome = Response nat json | Unhandled exn

text \<open>
  The environment of one request: the clock reading \<open>datetime.utcnow()\<close> returns, and
  for each driver call whether it raises (connection loss, timeout) and with which text.
\<close>

record env =
  utcnow :: datetime
  find_one_error :: "string option"
  insert_one_error :: "string option"
  update_one_error :: "string option"

section \<open>The collection\<close>

text \<open>
  A stored document; \<open>None\<close> is a field the document does not have. The collection is
  the list of its documents in insertion order. A layout is kept as written, a
  timestamp at the resolution of a BSON datetime (\<open>bson_doc\<close> is the document as the
  store keeps it).
\<close>

record doc =
  userId :: string
  dashboardId :: string
  layout :: "json list option"
  updatedAt :: "datetime option"

type_synonym collection = "doc list"

definition bson_doc :: "doc \<Rightarrow> doc" where
  "bson_doc x = x\<lparr>updatedAt := map_option bson_datetime (updatedAt x)\<rparr>"

definition matches :: "string \<Rightarrow> string \<Rightarrow> doc \<Rightarrow> bool" where
  "matches u d x = (userId x = u \<and> dashboardId x = d)"

text \<open>The unique index of app.py on \<open>(userId, dashboardId)\<close>.\<close>

definition doc_key :: "doc \<Rightarrow> string \<times> string" where
  "doc_key x = (userId x, dashboardId x)"

definition unique_index :: "collection \<Rightarrow> bool" where
  "unique_index c = distinct (map doc_key c)"

definition find_one :: "env \<Rightarrow> collection \<Rightarrow> string \<Rightarrow> string \<Rightarrow> exn + doc option" where
  "find_one e c u d =
     (case find_one_error e of
        Some msg \<Rightarrow> Inl (PyMongoError msg)
      | None \<Rightarrow> Inr (find (matches u d) c))"

text \<open>\<open>insert_one\<close> under the unique index: a second document of a key is refused.\<close>

definition insert_one :: "env \<Rightarrow> collection \<Rightarrow> doc \<Rightarrow> exn + collection" where
  "insert_one e c x =
     (case insert_one_error e of
        Some msg \<Rightarrow> Inl (PyMongoError msg)
      | None \<Rightarrow>
          (if find (matches (userId x) (dashboardId x)) c \<noteq> None
           then Inl (PyMongoError ''E11000 duplicate key error'')
           else Inr (c @ [bson_doc x])))"

fun update_first :: "(doc \<Rightarrow> bool) \<Rightarrow> (doc \<Rightarrow> doc) \<Rightarrow> collection \<Rightarrow> collection" where
  "update_first P f [] = []"
| "update_first P f (x # xs) = (if P x then f x # xs else x # update_first P f xs)"

record update_result =
  matched_count :: nat
  upserted_id :: "nat option"

text \<open>
  \<open>update_one(filter, {"$set": {layout, updatedAt}}, upsert=True)\<close>: the first document
  matching the filter gets the two fields; when none matches, a document made of the
  filter's fields and the two fields is inserted, and its identifier (here its position)
  is reported as \<open>upserted_id\<close>. The timestamp is written as a BSON datetime.
\<close>

definition update_one_upsert ::
  "env \<Rightarrow> collection \<Rightarrow> string \<Rightarrow> string \<Rightarrow> json list \<Rightarrow> datetime \<Rightarrow> exn + (collection \<times> update_result)" where
  "update_one_upsert e c u d lay now =
     (case update_one_error e of
        Some msg \<Rightarrow> Inl (PyMongoError msg)
      | None \<Rightarrow>
          (case find (matches u d) c of
             Some x \<Rightarrow>
               Inr (update_first (matches u d)
                      (\<lambda>y. y\<lparr>layout := Some lay, updatedAt := Some (bson_datetime now)\<rparr>) c,
                    \<lparr>matched_count = 1, upserted_id = None\<rparr>)
           | None \<Rightarrow>
               Inr (c @ [\<lparr>userId = u, dashboardId = d, layout = Some lay,
                          updatedAt = Some (bson_datetime now)\<rparr>],
                    \<lparr>matched_count = 0, upserted_id = Some (length c)\<rparr>)))"

section \<open>Helpers of app.py\<close>

definition get_current_user_id :: "request \<Rightarrow> string" where
  "get_current_user_id req =
     (case headers req ''X-User-Id'' of
        None \<Rightarrow> ''demo-user''
      | Some user_id \<Rightarrow> (if user_id = [] then ''demo-user'' else user_id))"

definition serialize_dashboard :: "doc option \<Rightarrow> json" where
  "serialize_dashboard d =
     (case d of
        None \<Rightarrow> JNull
      | Some x \<Rightarrow>
          JObj [(''userId'', JStr (userId x)),
                (''dashboardId'', JStr (dashboardId x)),
                (''layout'', JList (case layout x of None \<Rightarrow> [] | Some l \<Rightarrow> l)),
                (''updatedAt'',
                   (case updatedAt x of
                      Some t \<Rightarrow> JStr (isoformat t @ ''Z'')
                    | None \<Rightarrow> JNull))])"

section \<open>Routes of app.py\<close>

definition error_body :: "string \<Rightarrow> json" where
  "error_body msg = JObj [(''error'', JStr msg)]"

text \<open>
  The 200 of a created default serializes the handler's own \<open>default_doc\<close>, with the
  clock reading as read; the collection gets the document as the store keeps it.
\<close>

definition get_dashboard :: "env \<Rightarrow> request \<Rightarrow> string \<Rightarrow> collection \<Rightarrow> outcome \<times> collection" where
  "get_dashboard e req dashboard_id c =
     (let user_id = get_current_user_id req in
      if user_id = [] then (Response 401 (error_body ''Unauthorized''), c)
      else
        (case find_one e c user_id dashboard_id of
           Inl ex \<Rightarrow> (Unhandled ex, c)
         | Inr None \<Rightarrow>
             (let now = utcnow e;
                  default_doc = \<lparr>userId = user_id, dashboardId = dashboard_id,
                                 layout = Some [], updatedAt = Some now\<rparr>
              in case insert_one e c default_doc of
                   Inl ex \<Rightarrow>
                     (Response 500
                        (error_body (''Failed to create default dashboard: '' @ exn_str ex)), c)
                 | Inr c' \<Rightarrow> (Response 200 (serialize_dashboard (Some default_doc)), c'))
         | Inr (Some x) \<Rightarrow> (Response 200 (serialize_dashboard (Some x)), c)))"

definition upsert_dashboard :: "env \<Rightarrow> request \<Rightarrow> string \<Rightarrow> collection \<Rightarrow> outcome \<times> collection" where
  "upsert_dashboard e req dashboard_id c =
     (let user_id = get_current_user_id req in
      if user_id = [] then (Response 401 (error_body ''Unauthorized''), c)
      else
        (let data = py_or (get_json_silent req) (JObj []) in
         case dict_get data ''layout'' of
           Inl ex \<Rightarrow> (Unhandled ex, c)
         | Inr (JList lay) \<Rightarrow>
             (let now = utcnow e in
              case update_one_upsert e c user_id dashboard_id lay now of
                Inl ex \<Rightarrow>
                  (Response 500 (error_body (''Failed to upsert dashboard: '' @ exn_str ex)), c)
              | Inr (c', result) \<Rightarrow>
                  (let status = (if upserted_id result \<noteq> None then ''created'' else ''updated'')
                   in case find_one e c' user_id dashboard_id of
                        Inl ex \<Rightarrow> (Unhandled ex, c')
                      | Inr found \<Rightarrow>
                          (Response (if status = ''created'' then 201 else 200)
                             (JObj [(''status'', JStr status),
                                    (''dashboard'', serialize_dashboard found)]), c')))
         | Inr _ \<Rightarrow> (Response 400 (error_body ''Field 'layout' (array) is required''), c)))"

definition health :: outcome where
  "health = Response 200 (JObj [(''status'', JStr ''ok'')])"

section \<open>Sequences of requests\<close>

text \<open>
  The collections the service can reach from \<open>c0\<close>: each step is one GET or one PUT,
  with any request, any path parameter and any environment.
\<close>

inductive reachable_from :: "collection \<Rightarrow> collection \<Rightarrow> bool" for c0 :: collection where
  start: "reachable_from c0 c0"
| get: "reachable_from c0 c \<Longrightarrow> reachable_from c0 (snd (get_dashboard e req dashboard_id c))"
| put: "reachable_from c0 c \<Longrightarrow> reachable_from c0 (snd (upsert_dashboard e req dashboard_id c))"

text \<open>
  The collections the service reaches from the empty one while the clock readings of
  its requests never decrease; the first argument is the latest reading.
\<close>

inductive clocked :: "datetime \<Rightarrow> collection \<Rightarrow> bool" where
  empty: "clocked t []"
| get: "clocked t c \<Longrightarrow> dt_le t (utcnow e) \<Longrightarrow>
        clocked (utcnow e) (snd (get_dashboard e req dashboard_id c))"
| put: "clocked t c \<Longrightarrow> dt_le t (utcnow e) \<Longrightarrow>
        clocked (utcnow e) (snd (upsert_dashboard e req dashboard_id c))"

text \<open>Every stored timestamp is at most the reading \<open>t\<close>, as the store keeps it.\<close>

definition stamped_until :: "datetime \<Rightarrow> collection \<Rightarrow> bool" where
  "stamped_until t c =
     list_all (\<lambda>x. case updatedAt x of None \<Rightarrow> True
                                        | Some p \<Rightarrow> dt_le p (bson_datetime t)) c"

text \<open>The \<open>layout\<close> a PUT handler extracts from the request body (lines 125 and 126).\<close>

abbreviation body_layout :: "request \<Rightarrow> exn + json" where
  "body_layout req \<equiv> dict_get (py_or (get_json_silent req) (JObj [])) ''layout''"

text \<open>A member of a JSON object, for reading a response body.\<close>

definition json_field :: "json \<Rightarrow> string \<Rightarrow> json option" where
  "json_field j k = (case j of JObj kvs \<Rightarrow> map_of kvs k | _ \<Rightarrow> None)"

section \<open>Example inputs\<close>

definition env_at :: "datetime \<Rightarrow> env" where
  "env_at t = \<lparr>utcnow = t, find_one_error = None, insert_one_error = None,
               update_one_error = None\<rparr>"

definition t_early :: datetime where
  "t_early = \<lparr>year = 2024, month = 1, day = 2, hour = 3, minute = 4, second = 5,
              microsecond = 1500\<rparr>"

definition t_early_ms :: datetime where
  "t_early_ms = \<lparr>year = 2024, month = 1, day = 2, hour = 3, minute = 4, second = 5,
                 microsecond = 1000\<rparr>"

definition t_late :: datetime where
  "t_late = \<lparr>year = 2024, month = 1, day = 2, hour = 3, minute = 5, second = 0,
             microsecond = 0\<rparr>"

definition widget :: "string \<Rightarrow> json" where
  "widget w = JObj [(''widgetId'', JStr w), (''x'', JInt 0), (''y'', JInt 0),
                    (''w'', JInt 1), (''h'', JInt 1)]"

definition get_request :: "string \<Rightarrow> request" where
  "get_request u = \<lparr>headers = [''X-User-Id'' \<mapsto> u], json_body = None\<rparr>"

definition put_request :: "string \<Rightarrow> json \<Rightarrow> request" where
  "put_request u body = \<lparr>headers = [''X-User-Id'' \<mapsto> u], json_body = Some body\<rparr>"

definition layout_body :: "json list \<Rightarrow> json" where
  "layout_body lay = JObj [(''layout'', JList lay)]"

definition bob_doc :: doc where
  "bob_doc = \<lparr>userId = ''bob'', dashboardId = ''d1'', layout = Some [widget ''a''],
               updatedAt = Some t_late\<rparr>"

section \<open>Lemmas on the collection and the handlers\<close>

lemma get_current_user_id_nonempty: "get_current_user_id req \<noteq> []"
  by (simp add: get_current_user_id_def split: option.split)

lemma find_append_one:
  "find P (xs @ [x]) = (case find P xs of None \<Rightarrow> (if P x then Some x else None) | Some y \<Rightarrow> Some y)"
  by (induction xs) auto

lemma length_update_first: "length (update_first P f c) = length c"
  by (induction c) auto

lemma map_key_update_first:
  "(\<And>x. k (f x) = k x) \<Longrightarrow> map k (update_first P f c) = map k c"
  by (induction c) auto

lemma find_update_first_same:
  "(\<And>x. P x \<Longrightarrow> P (f x)) \<Longrightarrow> find P (update_first P f c) = map_option f (find P c)"
  by (induction c) auto

lemma find_update_first_other:
  "(\<And>x. P x \<Longrightarrow> \<not> Q x \<and> \<not> Q (f x)) \<Longrightarrow> find Q (update_first P f c) = find Q c"
  by (induction c) auto

lemma iso_early: "isoformat t_early = ''2024-01-02T03:04:05.001500''"
  by code_simp

lemma iso_late: "isoformat t_late = ''2024-01-02T03:05:00''"
  by code_simp

lemma iso_early_ms: "isoformat t_early_ms = ''2024-01-02T03:04:05.001000''"
  by code_simp

lemma bson_early: "bson_datetime t_early = t_early_ms"
  by (simp add: bson_datetime_def t_early_def t_early_ms_def)

lemma bson_late: "bson_datetime t_late = t_late"
  by (simp add: bson_datetime_def t_late_def)

lemma le_early_late: "dt_le t_early t_late \<and> dt_le t_early_ms t_late \<and> \<not> dt_le t_late t_early_ms"
  by (simp add: dt_le_def dt_key_def t_early_def t_early_ms_def t_late_def)

lemma get_dashboard_found:
  assumes "find_one_error e = None" and "find (matches (get_current_user_id req) did) c = Some x"
  shows "get_dashboard e req did c = (Response 200 (serialize_dashboard (Some x)), c)"
  using assms by (simp add: get_dashboard_def find_one_def get_current_user_id_nonempty)

lemma get_dashboard_missing:
  assumes "find_one_error e = None" and "find (matches (get_current_user_id req) did) c = None"
  shows "get_dashboard e req did c =
     (case insert_one_error e of
        None \<Rightarrow>
          (Response 200
             (serialize_dashboard
                (Some \<lparr>userId = get_current_user_id req, dashboardId = did, layout = Some [],
                        updatedAt = Some (utcnow e)\<rparr>)),
           c @ [\<lparr>userId = get_current_user_id req, dashboardId = did, layout = Some [],
                  updatedAt = Some (bson_datetime (utcnow e))\<rparr>])
      | Some cause \<Rightarrow>
          (Response 500 (error_body (''Failed to create default dashboard: '' @ cause)), c))"
  using assms
  by (simp add: get_dashboard_def find_one_def insert_one_def bson_doc_def get_current_user_id_nonempty
      Let_def split: option.split)

lemma get_dashboard_find_error:
  assumes "find_one_error e = Some msg"
  shows "get_dashboard e req did c = (Unhandled (PyMongoError msg), c)"
  using assms by (simp add: get_dashboard_def find_one_def get_current_user_id_nonempty)

lemma upsert_dashboard_valid:
  assumes "body_layout req = Inr (JList lay)"
    and "update_one_error e = None" and "find_one_error e = None"
  shows "upsert_dashboard e req did c =
     (case find (matches (get_current_user_id req) did) c of
        None \<Rightarrow>
          (Response 201
             (JObj [(''status'', JStr ''created''),
                    (''dashboard'', serialize_dashboard
                       (Some \<lparr>userId = get_current_user_id req, dashboardId = did,
                               layout = Some lay, updatedAt = Some (bson_datetime (utcnow e))\<rparr>))]),
           c @ [\<lparr>userId = get_current_user_id req, dashboardId = did, layout = Some lay,
                  updatedAt = Some (bson_datetime (utcnow e))\<rparr>])
      | Some y \<Rightarrow>
          (Response 200
             (JObj [(''status'', JStr ''updated''),
                    (''dashboard'', serialize_dashboard
                       (Some (y\<lparr>layout := Some lay, updatedAt := Some (bson_datetime (utcnow e))\<rparr>)))]),
           update_first (matches (get_current_user_id req) did)
             (\<lambda>y. y\<lparr>layout := Some lay, updatedAt := Some (bson_datetime (utcnow e))\<rparr>) c))"
proof (cases "find (matches (get_current_user_id req) did) c")
  case None
  then have "\<not> matches (get_current_user_id req) did x" if "x \<in> set c" for x
    using that by (simp add: find_None_iff)
  with None assms show ?thesis
    by (simp add: upsert_dashboard_def update_one_upsert_def find_one_def
        get_current_user_id_nonempty find_append_one matches_def Let_def)
next
  case (Some y)
  have "find (matches (get_current_user_id req) did)
          (update_first (matches (get_current_user_id req) did)
             (\<lambda>y. y\<lparr>layout := Some lay, updatedAt := Some (bson_datetime (utcnow e))\<rparr>) c)
        = Some (y\<lparr>layout := Some lay, updatedAt := Some (bson_datetime (utcnow e))\<rparr>)"
    using Some by (subst find_update_first_same) (simp_all add: matches_def)
  with Some assms show ?thesis
    by (simp add: upsert_dashboard_def update_one_upsert_def find_one_def
        get_current_user_id_nonempty Let_def)
qed

lemma upsert_dashboard_2xx:
  assumes "upsert_dashboard e req did c = (Response s b, c')" and "s = 200 \<or> s = 201"
  shows "\<exists>lay. body_layout req = Inr (JList lay) \<and> update_one_error e = None \<and>
               find_one_error e = None"
  using assms
  by (auto simp: upsert_dashboard_def update_one_upsert_def find_one_def Let_def
      get_current_user_id_nonempty
      split: sum.splits json.splits option.splits if_splits prod.splits)

lemma upsert_dashboard_collection:
  "snd (upsert_dashboard e req did c) = c \<or>
   (\<exists>lay. find (matches (get_current_user_id req) did) c = None \<and>
      snd (upsert_dashboard e req did c) =
        c @ [\<lparr>userId = get_current_user_id req, dashboardId = did, layout = Some lay,
               updatedAt = Some (bson_datetime (utcnow e))\<rparr>]) \<or>
   (\<exists>lay. snd (upsert_dashboard e req did c) =
        update_first (matches (get_current_user_id req) did)
          (\<lambda>y. y\<lparr>layout := Some lay, updatedAt := Some (bson_datetime (utcnow e))\<rparr>) c)"
  by (auto simp: upsert_dashboard_def update_one_upsert_def find_one_def Let_def
      split: sum.splits json.splits option.splits if_splits prod.splits)

lemma get_dashboard_collection:
  "snd (get_dashboard e req did c) = c \<or>
   (find (matches (get_current_user_id req) did) c = None \<and>
      snd (get_dashboard e req did c) =
        c @ [\<lparr>userId = get_current_user_id req, dashboardId = did, layout = Some [],
               updatedAt = Some (bson_datetime (utcnow e))\<rparr>])"
  by (auto simp: get_dashboard_def insert_one_def bson_doc_def find_one_def Let_def
      split: sum.splits option.splits if_splits)

lemma find_None_no_doc:
  "(find (matches u d) c = None) = (\<not> (\<exists>x\<in>set c. userId x = u \<and> dashboardId x = d))"
  by (auto simp: find_None_iff matches_def)

lemma user_id_get_request: "get_current_user_id (get_request ''alice'') = ''alice''"
  by (simp add: get_current_user_id_def get_request_def)

section \<open>The claims\<close>

text \<open>
  Claim C1. A GET whose (identity, dashboardId) key has no stored document builds the
  default document (empty layout, the current timestamp), inserts it and answers 200
  with the serialized new document; when the insert fails with cause \<open>cause\<close> it
  answers 500 with the error "Failed to create default dashboard: cause".
\<close>

theorem get_dashboard_creates_default:
  assumes "find_one_error e = None"
    and "\<not> (\<exists>x\<in>set c. userId x = get_current_user_id req \<and> dashboardId x = did)"
  shows "get_dashboard e req did c =
     (case insert_one_error e of
        None \<Rightarrow>
          (Response 200
             (JObj [(''userId'', JStr (get_current_user_id req)),
                    (''dashboardId'', JStr did),
                    (''layout'', JList []),
                    (''updatedAt'', JStr (isoformat (utcnow e) @ ''Z''))]),
           c @ [\<lparr>userId = get_current_user_id req, dashboardId = did, layout = Some [],
                  updatedAt = Some (bson_datetime (utcnow e))\<rparr>])
      | Some cause \<Rightarrow>
          (Response 500
             (JObj [(''error'', JStr (''Failed to create default dashboard: '' @ cause))]), c))"
proof -
  from assms(2) have "find (matches (get_current_user_id req) did) c = None"
    by (simp add: find_None_no_doc)
  from get_dashboard_missing [OF assms(1) this] show ?thesis
    by (simp add: serialize_dashboard_def error_body_def split: option.split)
qed

theorem get_dashboard_creates_default_witness:
  "find_one_error (env_at t_early) = None \<and>
   \<not> (\<exists>x\<in>set [bob_doc]. userId x = get_current_user_id (get_request ''alice'') \<and>
         dashboardId x = ''d1'') \<and>
   get_dashboard (env_at t_early) (get_request ''alice'') ''d1'' [bob_doc] =
     (Response 200
        (JObj [(''userId'', JStr ''alice''), (''dashboardId'', JStr ''d1''),
               (''layout'', JList []),
               (''updatedAt'', JStr ''2024-01-02T03:04:05.001500Z'')]),
      [bob_doc, \<lparr>userId = ''alice'', dashboardId = ''d1'', layout = Some [],
                  updatedAt = Some t_early_ms\<rparr>]) \<and>
   get_dashboard ((env_at t_early)\<lparr>insert_one_error := Some ''timed out''\<rparr>)
       (get_request ''alice'') ''d1'' [bob_doc] =
     (Response 500
        (JObj [(''error'', JStr ''Failed to create default dashboard: timed out'')]),
      [bob_doc])"
proof -
  have h1: "find_one_error (env_at t_early) = None"
    and h1': "find_one_error ((env_at t_early)\<lparr>insert_one_error := Some ''timed out''\<rparr>) = None"
    by (simp_all add: env_at_def)
  have h2: "\<not> (\<exists>x\<in>set [bob_doc]. userId x = get_current_user_id (get_request ''alice'') \<and>
         dashboardId x = ''d1'')"
    by (simp add: bob_doc_def user_id_get_request)
  show ?thesis
    using h1 h2 get_dashboard_creates_default [OF h1 h2]
      get_dashboard_creates_default [OF h1' h2]
    by (simp add: env_at_def bson_early bson_late iso_early_ms user_id_get_request iso_early)
qed

lemma user_id_put_request: "get_current_user_id (put_request ''alice'' b) = ''alice''"
  by (simp add: get_current_user_id_def put_request_def)

lemma body_layout_put_request:
  "body_layout (put_request u (layout_body lay)) = Inr (JList lay)"
  by (simp add: put_request_def layout_body_def get_json_silent_def py_or_def dict_get_def)

text \<open>
  Claim C2. A PUT that succeeds (status 200 or 201) answers 201 with the body
  \<open>{status: "created", dashboard: doc}\<close> exactly when the upsert created a new document
  (no document of the key was stored before, and the collection grew by one), and 200
  with \<open>{status: "updated", dashboard: doc}\<close> otherwise; \<open>doc\<close> is the serialized
  document read back for the key.
\<close>

theorem upsert_dashboard_created_or_updated:
  assumes "upsert_dashboard e req did c = (Response s b, c')" and "s = 200 \<or> s = 201"
  shows "(s = 201) = (find (matches (get_current_user_id req) did) c = None) \<and>
         (s = 201) = (length c' = Suc (length c)) \<and>
         (s = 200) = (length c' = length c) \<and>
         b = JObj [(''status'', JStr (if s = 201 then ''created'' else ''updated'')),
                   (''dashboard'',
                      serialize_dashboard (find (matches (get_current_user_id req) did) c'))] \<and>
         find (matches (get_current_user_id req) did) c' \<noteq> None"
proof -
  from upsert_dashboard_2xx [OF assms] obtain lay where
    ok: "body_layout req = Inr (JList lay)" "update_one_error e = None" "find_one_error e = None"
    by blast
  show ?thesis
  proof (cases "find (matches (get_current_user_id req) did) c")
    case None
    with upsert_dashboard_valid [OF ok, of did c] assms(1) show ?thesis
      by (auto simp: find_append_one matches_def)
  next
    case (Some y)
    have "find (matches (get_current_user_id req) did)
            (update_first (matches (get_current_user_id req) did)
               (\<lambda>y. y\<lparr>layout := Some lay, updatedAt := Some (bson_datetime (utcnow e))\<rparr>) c)
          = Some (y\<lparr>layout := Some lay, updatedAt := Some (bson_datetime (utcnow e))\<rparr>)"
      using Some by (subst find_update_first_same) (simp_all add: matches_def)
    with Some upsert_dashboard_valid [OF ok, of did c] assms(1) show ?thesis
      by (auto simp: length_update_first)
  qed
qed

theorem upsert_dashboard_created_or_updated_witness:
  "upsert_dashboard (env_at t_early) (put_request ''alice'' (layout_body [widget ''a''])) ''d1''
       [bob_doc] =
     (Response 201
        (JObj [(''status'', JStr ''created''),
               (''dashboard'',
                  JObj [(''userId'', JStr ''alice''), (''dashboardId'', JStr ''d1''),
                        (''layout'', JList [widget ''a'']),
                        (''updatedAt'', JStr ''2024-01-02T03:04:05.001000Z'')])]),
      [bob_doc, \<lparr>userId = ''alice'', dashboardId = ''d1'', layout = Some [widget ''a''],
                  updatedAt = Some t_early_ms\<rparr>]) \<and>
   ((201::nat) = 200 \<or> (201::nat) = 201) \<and>
   find (matches ''alice'' ''d1'') [bob_doc] = None \<and>
   length [bob_doc, \<lparr>userId = ''alice'', dashboardId = ''d1'', layout = Some [widget ''a''],
                  updatedAt = Some t_early_ms\<rparr>] = Suc (length [bob_doc])"
proof -
  have run: "upsert_dashboard (env_at t_early) (put_request ''alice'' (layout_body [widget ''a'']))
       ''d1'' [bob_doc] =
     (Response 201
        (JObj [(''status'', JStr ''created''),
               (''dashboard'',
                  JObj [(''userId'', JStr ''alice''), (''dashboardId'', JStr ''d1''),
                        (''layout'', JList [widget ''a'']),
                        (''updatedAt'', JStr ''2024-01-02T03:04:05.001000Z'')])]),
      [bob_doc, \<lparr>userId = ''alice'', dashboardId = ''d1'', layout = Some [widget ''a''],
                  updatedAt = Some t_early_ms\<rparr>])"
    using upsert_dashboard_valid [OF body_layout_put_request, of "env_at t_early" "''alice''"
        "[widget ''a'']" "''d1''" "[bob_doc]"]
    by (simp add: env_at_def bson_early bson_late iso_early_ms user_id_put_request bob_doc_def matches_def
        serialize_dashboard_def iso_early)
  have st: "(201::nat) = 200 \<or> (201::nat) = 201" by simp
  from upsert_dashboard_created_or_updated [OF run st] run show ?thesis
    by (simp add: user_id_put_request)
qed

lemma upsert_dashboard_invalid_layout:
  assumes "body_layout req = Inr v" and "\<And>lay. v \<noteq> JList lay"
  shows "upsert_dashboard e req did c =
           (Response 400 (error_body ''Field 'layout' (array) is required''), c)"
  using assms
  by (cases v) (auto simp: upsert_dashboard_def get_current_user_id_nonempty)

lemma get_dashboard_not_401: "fst (get_dashboard e req did c) \<noteq> Response 401 body"
  by (simp add: get_dashboard_def Let_def get_current_user_id_nonempty
      split: sum.split option.split)

lemma upsert_dashboard_not_401: "fst (upsert_dashboard e req did c) \<noteq> Response 401 body"
  by (simp add: upsert_dashboard_def Let_def get_current_user_id_nonempty
      split: sum.split json.split prod.split)

text \<open>
  Claim C4. The claim asks for 400 and no store write whenever the parsed body has no
  \<open>layout\<close> key. A body that parses to a non-empty JSON array has no such key, and
  there \<open>data.get\<close> raises \<open>AttributeError\<close>: the handler answers with no 400 (the
  collection is unchanged).
\<close>

theorem upsert_dashboard_list_body:
  "upsert_dashboard e (put_request u (JList [JInt 1])) did c =
     (Unhandled (AttributeError ''list'' ''get''), c)"
  by (simp add: upsert_dashboard_def put_request_def get_json_silent_def py_or_def
      dict_get_def get_current_user_id_nonempty)

text \<open>
  Claim C7, as stated: the resolver returns the header value verbatim whenever the
  header is present. It does not when the header is present and empty.
\<close>

theorem get_current_user_id_verbatim_counterexample:
  "headers (get_request '''') ''X-User-Id'' = Some '''' \<and>
   get_current_user_id (get_request '''') \<noteq> ''''"
  by (simp add: get_request_def get_current_user_id_def)

text \<open>
  Claim C7, amended. The resolver returns the \<open>X-User-Id\<close> value verbatim when the
  header is present and not empty, the fixed identity \<open>demo-user\<close> when it is absent or
  empty, and never the empty string; so neither dashboard handler ever answers 401.
\<close>

theorem get_current_user_id_resolves:
  "(\<forall>v. headers req ''X-User-Id'' = Some v \<and> v \<noteq> [] \<longrightarrow> get_current_user_id req = v) \<and>
   (headers req ''X-User-Id'' = None \<or> headers req ''X-User-Id'' = Some [] \<longrightarrow>
      get_current_user_id req = ''demo-user'') \<and>
   get_current_user_id req \<noteq> [] \<and>
   (\<forall>e did c body. fst (get_dashboard e req did c) \<noteq> Response 401 body \<and>
                     fst (upsert_dashboard e req did c) \<noteq> Response 401 body)"
proof -
  have "\<forall>v. headers req ''X-User-Id'' = Some v \<and> v \<noteq> [] \<longrightarrow> get_current_user_id req = v"
    by (simp add: get_current_user_id_def)
  moreover have "headers req ''X-User-Id'' = None \<or> headers req ''X-User-Id'' = Some [] \<longrightarrow>
      get_current_user_id req = ''demo-user''"
    by (auto simp: get_current_user_id_def)
  ultimately show ?thesis
    using get_current_user_id_nonempty get_dashboard_not_401 upsert_dashboard_not_401
    by blast
qed

theorem get_current_user_id_resolves_witness:
  "headers (get_request ''alice'') ''X-User-Id'' = Some ''alice'' \<and>
   get_current_user_id (get_request ''alice'') = ''alice'' \<and>
   headers \<lparr>headers = Map.empty, json_body = None\<rparr> ''X-User-Id'' = None \<and>
   get_current_user_id \<lparr>headers = Map.empty, json_body = None\<rparr> = ''demo-user'' \<and>
   fst (get_dashboard (env_at t_early) (get_request ''alice'') ''d1'' []) \<noteq>
     Response 401 (error_body ''Unauthorized'')"
proof -
  have a: "headers (get_request ''alice'') ''X-User-Id'' = Some ''alice''"
    by (simp add: get_request_def)
  have b: "headers \<lparr>headers = Map.empty, json_body = None\<rparr> ''X-User-Id'' = None"
    by simp
  from a b get_current_user_id_resolves [of "get_request ''alice''"]
    get_current_user_id_resolves [of "\<lparr>headers = Map.empty, json_body = None\<rparr>"]
  show ?thesis by simp
qed

text \<open>
  Claim C8. A PUT whose body is malformed JSON, or parses to nothing, is handled as the
  empty object: it takes the missing-\<open>layout\<close> path and answers 400, with the
  collection unchanged; nothing else is raised for the malformed body.
\<close>

theorem upsert_dashboard_unparsed_body:
  assumes "json_body req = None \<or> json_body req = Some JNull"
  shows "py_or (get_json_silent req) (JObj []) = JObj [] \<and>
         upsert_dashboard e req did c =
           (Response 400 (JObj [(''error'', JStr ''Field 'layout' (array) is required'')]), c)"
proof -
  from assms have d: "py_or (get_json_silent req) (JObj []) = JObj []"
    by (auto simp: get_json_silent_def py_or_def)
  then have "body_layout req = Inr JNull"
    by (simp add: dict_get_def)
  from upsert_dashboard_invalid_layout [OF this] d show ?thesis
    by (simp add: error_body_def)
qed

theorem upsert_dashboard_unparsed_body_witness:
  "(json_body (get_request ''alice'') = None \<or> json_body (get_request ''alice'') = Some JNull) \<and>
   upsert_dashboard (env_at t_early) (get_request ''alice'') ''d1'' [bob_doc] =
     (Response 400 (JObj [(''error'', JStr ''Field 'layout' (array) is required'')]), [bob_doc]) \<and>
   (json_body (put_request ''alice'' JNull) = None \<or>
    json_body (put_request ''alice'' JNull) = Some JNull) \<and>
   upsert_dashboard (env_at t_early) (put_request ''alice'' JNull) ''d1'' [bob_doc] =
     (Response 400 (JObj [(''error'', JStr ''Field 'layout' (array) is required'')]), [bob_doc])"
proof -
  have a: "json_body (get_request ''alice'') = None \<or> json_body (get_request ''alice'') = Some JNull"
    by (simp add: get_request_def)
  have b: "json_body (put_request ''alice'' JNull) = None \<or>
    json_body (put_request ''alice'' JNull) = Some JNull"
    by (simp add: put_request_def)
  from a b upsert_dashboard_unparsed_body [OF a, of "env_at t_early" "''d1''" "[bob_doc]"]
    upsert_dashboard_unparsed_body [OF b, of "env_at t_early" "''d1''" "[bob_doc]"]
  show ?thesis by simp
qed

text \<open>
  Claim C10. When the \<open>X-User-Id\<close> header is present with the empty string as its
  value, the resolver gives \<open>demo-user\<close> and not the header value; the resolved
  identity is never the empty string, for any request.
\<close>

theorem get_current_user_id_empty_header:
  assumes "headers req ''X-User-Id'' = Some ''''"
  shows "get_current_user_id req = ''demo-user'' \<and> get_current_user_id req \<noteq> '''' \<and>
         (\<forall>r. get_current_user_id r \<noteq> '''')"
  using assms get_current_user_id_nonempty by (simp add: get_current_user_id_def)

theorem get_current_user_id_empty_header_witness:
  "headers (put_request '''' (layout_body [])) ''X-User-Id'' = Some '''' \<and>
   get_current_user_id (put_request '''' (layout_body [])) = ''demo-user''"
proof -
  have a: "headers (put_request '''' (layout_body [])) ''X-User-Id'' = Some ''''"
    by (simp add: put_request_def)
  from a get_current_user_id_empty_header [OF a] show ?thesis by simp
qed

lemma find_None_key: "(find (matches u d) c = None) = ((u, d) \<notin> set (map doc_key c))"
  by (induction c) (auto simp: matches_def doc_key_def)

lemma unique_index_append:
  "unique_index (c @ [x]) = (unique_index c \<and> find (matches (userId x) (dashboardId x)) c = None)"
  by (auto simp: unique_index_def find_None_key doc_key_def)

lemma unique_index_update_first:
  "unique_index (update_first P (\<lambda>y. y\<lparr>layout := l, updatedAt := t\<rparr>) c) = unique_index c"
  by (simp add: unique_index_def map_key_update_first doc_key_def)

lemma unique_index_get: "unique_index c \<Longrightarrow> unique_index (snd (get_dashboard e req did c))"
  using get_dashboard_collection [of e req did c] by (auto simp: unique_index_append)

lemma unique_index_put: "unique_index c \<Longrightarrow> unique_index (snd (upsert_dashboard e req did c))"
  using upsert_dashboard_collection [of e req did c]
  by (auto simp: unique_index_append unique_index_update_first)

lemma unique_index_at_most_one:
  "unique_index c \<Longrightarrow> length (filter (matches u d) c) \<le> 1"
proof (induction c)
  case Nil
  then show ?case by simp
next
  case (Cons x xs)
  show ?case
  proof (cases "matches u d x")
    case True
    with Cons.prems have "(u, d) \<notin> set (map doc_key xs)"
      by (auto simp: unique_index_def matches_def doc_key_def)
    then have "filter (matches u d) xs = []"
      by (auto simp: filter_empty_conv matches_def doc_key_def image_iff)
    with True show ?thesis by simp
  next
    case False
    with Cons show ?thesis by (simp add: unique_index_def)
  qed
qed

lemma unique_index_insert_one:
  "unique_index c \<Longrightarrow> insert_one e c x = Inr c' \<Longrightarrow> unique_index c'"
  by (auto simp: insert_one_def bson_doc_def unique_index_append split: option.splits if_splits)

lemma unique_index_update_one_upsert:
  "unique_index c \<Longrightarrow> update_one_upsert e c u d lay now = Inr (c', r) \<Longrightarrow> unique_index c'"
  by (auto simp: update_one_upsert_def unique_index_append unique_index_update_first
      split: option.splits)

text \<open>
  Claim C5. In every collection the service reaches from one that satisfies the unique
  index on \<open>(userId, dashboardId)\<close>, at most one document exists per pair, and one more
  GET (with its insert of a default document) or PUT (with its upsert) keeps it so. The
  two writes of the storage layer keep it by themselves, whatever the handler looked up
  before: \<open>insert_one\<close> refuses a second document of a key.
\<close>

theorem unique_index_reachable:
  assumes "unique_index c0" and "reachable_from c0 c"
  shows "unique_index c \<and> length (filter (matches u d) c) \<le> 1 \<and>
         unique_index (snd (get_dashboard e req did c)) \<and>
         unique_index (snd (upsert_dashboard e req did c)) \<and>
         (\<forall>x c'. insert_one e c x = Inr c' \<longrightarrow> unique_index c') \<and>
         (\<forall>lay now c' r. update_one_upsert e c u d lay now = Inr (c', r) \<longrightarrow> unique_index c')"
proof -
  from assms(2) assms(1) have uc: "unique_index c"
    by (induction rule: reachable_from.induct) (simp_all add: unique_index_get unique_index_put)
  have a: "length (filter (matches u d) c) \<le> 1"
    using uc by (rule unique_index_at_most_one)
  have b: "\<forall>x c'. insert_one e c x = Inr c' \<longrightarrow> unique_index c'"
    using uc unique_index_insert_one by blast
  have d: "\<forall>lay now c' r. update_one_upsert e c u d lay now = Inr (c', r) \<longrightarrow> unique_index c'"
    using uc unique_index_update_one_upsert by blast
  from uc a b d unique_index_get [OF uc] unique_index_put [OF uc] show ?thesis
    by (intro conjI)
qed

theorem unique_index_reachable_witness:
  "unique_index [] \<and>
   reachable_from []
     (snd (upsert_dashboard (env_at t_late) (put_request ''alice'' (layout_body [widget ''a'']))
        ''d1'' (snd (get_dashboard (env_at t_early) (get_request ''alice'') ''d1'' [])))) \<and>
   snd (upsert_dashboard (env_at t_late) (put_request ''alice'' (layout_body [widget ''a'']))
        ''d1'' (snd (get_dashboard (env_at t_early) (get_request ''alice'') ''d1'' []))) =
     [\<lparr>userId = ''alice'', dashboardId = ''d1'', layout = Some [widget ''a''],
        updatedAt = Some t_late\<rparr>] \<and>
   unique_index [\<lparr>userId = ''alice'', dashboardId = ''d1'', layout = Some [widget ''a''],
        updatedAt = Some t_late\<rparr>]"
proof -
  have u0: "unique_index []" by (simp add: unique_index_def)
  have r: "reachable_from []
     (snd (upsert_dashboard (env_at t_late) (put_request ''alice'' (layout_body [widget ''a'']))
        ''d1'' (snd (get_dashboard (env_at t_early) (get_request ''alice'') ''d1'' []))))"
    by (intro reachable_from.put reachable_from.get reachable_from.start)
  have g: "snd (get_dashboard (env_at t_early) (get_request ''alice'') ''d1'' []) =
      [\<lparr>userId = ''alice'', dashboardId = ''d1'', layout = Some [], updatedAt = Some t_early_ms\<rparr>]"
    using get_dashboard_missing [of "env_at t_early" "get_request ''alice''" "''d1''" "[]"]
    by (simp add: env_at_def bson_early bson_late iso_early_ms user_id_get_request)
  have p: "snd (upsert_dashboard (env_at t_late) (put_request ''alice'' (layout_body [widget ''a'']))
        ''d1'' [\<lparr>userId = ''alice'', dashboardId = ''d1'', layout = Some [],
                  updatedAt = Some t_early_ms\<rparr>]) =
     [\<lparr>userId = ''alice'', dashboardId = ''d1'', layout = Some [widget ''a''],
        updatedAt = Some t_late\<rparr>]"
    using upsert_dashboard_valid [OF body_layout_put_request, of "env_at t_late" "''alice''"
        "[widget ''a'']" "''d1''"
        "[\<lparr>userId = ''alice'', dashboardId = ''d1'', layout = Some [],
            updatedAt = Some t_early_ms\<rparr>]"]
    by (simp add: env_at_def bson_early bson_late iso_early_ms user_id_put_request matches_def)
  from unique_index_reachable [OF u0 r] u0 r g p show ?thesis by simp
qed

lemma find_other_after_put:
  assumes "get_current_user_id ra \<noteq> ub"
  shows "find (matches ub did') (snd (upsert_dashboard ea ra did c)) = find (matches ub did') c"
proof -
  have other: "\<not> matches ub did' x \<and>
      \<not> matches ub did' (x\<lparr>layout := Some lay, updatedAt := Some t\<rparr>)"
    if "matches (get_current_user_id ra) did x" for x lay t
    using that assms by (auto simp: matches_def)
  from upsert_dashboard_collection [of ea ra did c] show ?thesis
  proof (elim disjE exE conjE)
    assume "snd (upsert_dashboard ea ra did c) = c"
    then show ?thesis by simp
  next
    fix lay
    assume "snd (upsert_dashboard ea ra did c) =
        c @ [\<lparr>userId = get_current_user_id ra, dashboardId = did, layout = Some lay,
               updatedAt = Some (bson_datetime (utcnow ea))\<rparr>]"
    with assms show ?thesis
      by (simp add: find_append_one matches_def split: option.split)
  next
    fix lay
    assume "snd (upsert_dashboard ea ra did c) =
        update_first (matches (get_current_user_id ra) did)
          (\<lambda>y. y\<lparr>layout := Some lay, updatedAt := Some (bson_datetime (utcnow ea))\<rparr>) c"
    then show ?thesis
      using find_update_first_other [of "matches (get_current_user_id ra) did"
          "matches ub did'" "\<lambda>y. y\<lparr>layout := Some lay, updatedAt := Some (bson_datetime (utcnow ea))\<rparr>" c]
        other
      by simp
  qed
qed

lemma get_dashboard_response_cong:
  assumes "find (matches (get_current_user_id req) did) c1 =
           find (matches (get_current_user_id req) did) c2"
  shows "fst (get_dashboard e req did c1) = fst (get_dashboard e req did c2)"
  using assms
  by (auto simp: get_dashboard_def find_one_def insert_one_def bson_doc_def Let_def
      split: option.split)

text \<open>
  Claim C6. For distinct identities A and B and any dashboardId, a PUT made as A is not
  visible to a following GET made as B on the same dashboardId: B's GET answers what it
  would have answered without A's PUT, and when B has no document of its own yet it
  creates and returns its own empty-layout document, leaving A's document as A wrote it.
\<close>

theorem put_invisible_to_other_identity:
  assumes "get_current_user_id ra \<noteq> get_current_user_id rb"
  shows "fst (get_dashboard eb rb did (snd (upsert_dashboard ea ra did c))) =
           fst (get_dashboard eb rb did c) \<and>
         (find (matches (get_current_user_id rb) did) c = None \<and>
          find_one_error eb = None \<and> insert_one_error eb = None \<longrightarrow>
            get_dashboard eb rb did (snd (upsert_dashboard ea ra did c)) =
              (Response 200
                 (JObj [(''userId'', JStr (get_current_user_id rb)),
                        (''dashboardId'', JStr did),
                        (''layout'', JList []),
                        (''updatedAt'', JStr (isoformat (utcnow eb) @ ''Z''))]),
               snd (upsert_dashboard ea ra did c) @
                 [\<lparr>userId = get_current_user_id rb, dashboardId = did, layout = Some [],
                    updatedAt = Some (bson_datetime (utcnow eb))\<rparr>])) \<and>
         find (matches (get_current_user_id ra) did)
              (snd (get_dashboard eb rb did (snd (upsert_dashboard ea ra did c)))) =
           find (matches (get_current_user_id ra) did) (snd (upsert_dashboard ea ra did c))"
proof (intro conjI impI)
  let ?cA = "snd (upsert_dashboard ea ra did c)"
  have same: "find (matches (get_current_user_id rb) did) ?cA =
              find (matches (get_current_user_id rb) did) c"
    using assms by (rule find_other_after_put)
  then show "fst (get_dashboard eb rb did ?cA) = fst (get_dashboard eb rb did c)"
    by (rule get_dashboard_response_cong)
  show "get_dashboard eb rb did ?cA =
      (Response 200
         (JObj [(''userId'', JStr (get_current_user_id rb)),
                (''dashboardId'', JStr did),
                (''layout'', JList []),
                (''updatedAt'', JStr (isoformat (utcnow eb) @ ''Z''))]),
       ?cA @ [\<lparr>userId = get_current_user_id rb, dashboardId = did, layout = Some [],
                 updatedAt = Some (bson_datetime (utcnow eb))\<rparr>])"
    if h: "find (matches (get_current_user_id rb) did) c = None \<and>
          find_one_error eb = None \<and> insert_one_error eb = None"
  proof -
    from h same have "find (matches (get_current_user_id rb) did) ?cA = None" by simp
    from get_dashboard_missing [OF _ this, of eb] h show ?thesis
      by (simp add: serialize_dashboard_def)
  qed
  show "find (matches (get_current_user_id ra) did) (snd (get_dashboard eb rb did ?cA)) =
        find (matches (get_current_user_id ra) did) ?cA"
    using get_dashboard_collection [of eb rb did ?cA] assms
    by (auto simp: find_append_one matches_def split: option.split)
qed

theorem put_invisible_to_other_identity_witness:
  "get_current_user_id (put_request ''alice'' (layout_body [widget ''a''])) \<noteq>
     get_current_user_id (get_request ''bob'') \<and>
   find (matches ''bob'' ''d1'') [] = None \<and>
   get_dashboard (env_at t_late) (get_request ''bob'') ''d1''
       (snd (upsert_dashboard (env_at t_early)
               (put_request ''alice'' (layout_body [widget ''a''])) ''d1'' [])) =
     (Response 200
        (JObj [(''userId'', JStr ''bob''), (''dashboardId'', JStr ''d1''),
               (''layout'', JList []),
               (''updatedAt'', JStr ''2024-01-02T03:05:00Z'')]),
      [\<lparr>userId = ''alice'', dashboardId = ''d1'', layout = Some [widget ''a''],
         updatedAt = Some t_early_ms\<rparr>,
       \<lparr>userId = ''bob'', dashboardId = ''d1'', layout = Some [],
         updatedAt = Some t_late\<rparr>])"
proof -
  have ub: "get_current_user_id (get_request ''bob'') = ''bob''"
    by (simp add: get_current_user_id_def get_request_def)
  have ne: "get_current_user_id (put_request ''alice'' (layout_body [widget ''a''])) \<noteq>
     get_current_user_id (get_request ''bob'')"
    by (simp add: user_id_put_request ub)
  have p: "snd (upsert_dashboard (env_at t_early)
               (put_request ''alice'' (layout_body [widget ''a''])) ''d1'' []) =
      [\<lparr>userId = ''alice'', dashboardId = ''d1'', layout = Some [widget ''a''],
         updatedAt = Some t_early_ms\<rparr>]"
    using upsert_dashboard_valid [OF body_layout_put_request, of "env_at t_early" "''alice''"
        "[widget ''a'']" "''d1''" "[]"]
    by (simp add: env_at_def bson_early bson_late iso_early_ms user_id_put_request)
  from put_invisible_to_other_identity [OF ne, of "env_at t_late" "''d1''" "env_at t_early" "[]"]
    ne p show ?thesis
    by (simp add: ub env_at_def iso_late bson_late)
qed

lemma find_Some_matches: "find (matches u d) c = Some x \<Longrightarrow> userId x = u \<and> dashboardId x = d"
  by (auto simp: find_Some_iff matches_def)

lemma upsert_dashboard_stored:
  assumes "upsert_dashboard e req did c = (Response s b, c')" and "s = 200 \<or> s = 201"
  shows "\<exists>lay x. body_layout req = Inr (JList lay) \<and>
           find (matches (get_current_user_id req) did) c' = Some x \<and>
           userId x = get_current_user_id req \<and> dashboardId x = did \<and>
           layout x = Some lay \<and> updatedAt x = Some (bson_datetime (utcnow e)) \<and>
           (find (matches (get_current_user_id req) did) c \<noteq> None \<longrightarrow> s = 200)"
proof -
  from upsert_dashboard_2xx [OF assms] obtain lay where
    ok: "body_layout req = Inr (JList lay)" "update_one_error e = None" "find_one_error e = None"
    by blast
  show ?thesis
  proof (cases "find (matches (get_current_user_id req) did) c")
    case None
    with upsert_dashboard_valid [OF ok, of did c] assms(1) ok(1) show ?thesis
      by (auto simp: find_append_one matches_def)
  next
    case (Some y)
    have "find (matches (get_current_user_id req) did)
            (update_first (matches (get_current_user_id req) did)
               (\<lambda>y. y\<lparr>layout := Some lay, updatedAt := Some (bson_datetime (utcnow e))\<rparr>) c)
          = Some (y\<lparr>layout := Some lay, updatedAt := Some (bson_datetime (utcnow e))\<rparr>)"
      using Some by (subst find_update_first_same) (simp_all add: matches_def)
    with Some upsert_dashboard_valid [OF ok, of did c] assms(1) ok(1)
      find_Some_matches [OF Some] show ?thesis
      by auto
  qed
qed

lemma get_dashboard_responds:
  assumes "get_dashboard e req did c = (Response s b, c')"
  shows "find_one_error e = None"
proof (cases "find_one_error e")
  case None
  then show ?thesis .
next
  case (Some msg)
  from get_dashboard_find_error [OF Some, of req did c] assms show ?thesis by simp
qed

text \<open>
  Claim C3. After two successful PUTs to one key, with layouts \<open>L1\<close> then \<open>L2\<close>, a GET
  on the same key with no write in between answers 200 with the layout \<open>L2\<close> (and the
  timestamp of the second PUT): the stored layout is \<open>L2\<close> as a whole, nothing of
  \<open>L1\<close> is merged into it, and the second PUT answers 200.
\<close>

theorem put_put_get_second_layout:
  assumes "get_current_user_id r1 = get_current_user_id r3"
    and "get_current_user_id r2 = get_current_user_id r3"
    and "upsert_dashboard e1 r1 did c0 = (Response s1 b1, c1)" and "s1 = 200 \<or> s1 = 201"
    and "body_layout r1 = Inr (JList L1)"
    and "upsert_dashboard e2 r2 did c1 = (Response s2 b2, c2)" and "s2 = 200 \<or> s2 = 201"
    and "body_layout r2 = Inr (JList L2)"
    and "get_dashboard e3 r3 did c2 = (Response s3 b3, c3)"
  shows "s3 = 200 \<and>
         b3 = JObj [(''userId'', JStr (get_current_user_id r3)),
                    (''dashboardId'', JStr did),
                    (''layout'', JList L2),
                    (''updatedAt'', JStr (isoformat (bson_datetime (utcnow e2)) @ ''Z''))] \<and>
         c3 = c2 \<and> s2 = 200 \<and>
         (\<exists>x. find (matches (get_current_user_id r3) did) c2 = Some x \<and> layout x = Some L2)"
proof -
  from upsert_dashboard_stored [OF assms(3,4)] assms(1)
  have f1: "find (matches (get_current_user_id r3) did) c1 \<noteq> None"
    by auto
  from upsert_dashboard_stored [OF assms(6,7)] assms(2,8) f1 obtain x where
    x: "find (matches (get_current_user_id r3) did) c2 = Some x"
      "userId x = get_current_user_id r3" "dashboardId x = did"
      "layout x = Some L2" "updatedAt x = Some (bson_datetime (utcnow e2))"
    and s2: "s2 = 200"
    by auto
  from get_dashboard_found [OF get_dashboard_responds [OF assms(9)] x(1)] assms(9) x s2
  show ?thesis
    by (simp add: serialize_dashboard_def)
qed

theorem put_put_get_second_layout_witness:
  "upsert_dashboard (env_at t_early) (put_request ''alice'' (layout_body [widget ''a''])) ''d1'' [] =
     (Response 201
        (JObj [(''status'', JStr ''created''),
               (''dashboard'',
                  JObj [(''userId'', JStr ''alice''), (''dashboardId'', JStr ''d1''),
                        (''layout'', JList [widget ''a'']),
                        (''updatedAt'', JStr ''2024-01-02T03:04:05.001000Z'')])]),
      [\<lparr>userId = ''alice'', dashboardId = ''d1'', layout = Some [widget ''a''],
         updatedAt = Some t_early_ms\<rparr>]) \<and>
   upsert_dashboard (env_at t_late) (put_request ''alice'' (layout_body [widget ''b'', widget ''c'']))
       ''d1'' [\<lparr>userId = ''alice'', dashboardId = ''d1'', layout = Some [widget ''a''],
                 updatedAt = Some t_early_ms\<rparr>] =
     (Response 200
        (JObj [(''status'', JStr ''updated''),
               (''dashboard'',
                  JObj [(''userId'', JStr ''alice''), (''dashboardId'', JStr ''d1''),
                        (''layout'', JList [widget ''b'', widget ''c'']),
                        (''updatedAt'', JStr ''2024-01-02T03:05:00Z'')])]),
      [\<lparr>userId = ''alice'', dashboardId = ''d1'', layout = Some [widget ''b'', widget ''c''],
         updatedAt = Some t_late\<rparr>]) \<and>
   get_dashboard (env_at t_late) (get_request ''alice'') ''d1''
       [\<lparr>userId = ''alice'', dashboardId = ''d1'', layout = Some [widget ''b'', widget ''c''],
          updatedAt = Some t_late\<rparr>] =
     (Response 200
        (JObj [(''userId'', JStr ''alice''), (''dashboardId'', JStr ''d1''),
               (''layout'', JList [widget ''b'', widget ''c'']),
               (''updatedAt'', JStr ''2024-01-02T03:05:00Z'')]),
      [\<lparr>userId = ''alice'', dashboardId = ''d1'', layout = Some [widget ''b'', widget ''c''],
         updatedAt = Some t_late\<rparr>])"
proof -
  let ?d1 = "\<lparr>userId = ''alice'', dashboardId = ''d1'', layout = Some [widget ''a''],
         updatedAt = Some t_early_ms\<rparr>"
  let ?d2 = "\<lparr>userId = ''alice'', dashboardId = ''d1'', layout = Some [widget ''b'', widget ''c''],
         updatedAt = Some t_late\<rparr>"
  let ?r1 = "put_request ''alice'' (layout_body [widget ''a''])"
  let ?r2 = "put_request ''alice'' (layout_body [widget ''b'', widget ''c''])"
  let ?r3 = "get_request ''alice''"
  have p1: "upsert_dashboard (env_at t_early) ?r1 ''d1'' [] =
     (Response 201
        (JObj [(''status'', JStr ''created''),
               (''dashboard'',
                  JObj [(''userId'', JStr ''alice''), (''dashboardId'', JStr ''d1''),
                        (''layout'', JList [widget ''a'']),
                        (''updatedAt'', JStr ''2024-01-02T03:04:05.001000Z'')])]), [?d1])"
    using upsert_dashboard_valid [OF body_layout_put_request, of "env_at t_early" "''alice''"
        "[widget ''a'']" "''d1''" "[]"]
    by (simp add: env_at_def bson_early bson_late iso_early_ms user_id_put_request serialize_dashboard_def iso_early)
  have p2: "upsert_dashboard (env_at t_late) ?r2 ''d1'' [?d1] =
     (Response 200
        (JObj [(''status'', JStr ''updated''),
               (''dashboard'',
                  JObj [(''userId'', JStr ''alice''), (''dashboardId'', JStr ''d1''),
                        (''layout'', JList [widget ''b'', widget ''c'']),
                        (''updatedAt'', JStr ''2024-01-02T03:05:00Z'')])]), [?d2])"
    using upsert_dashboard_valid [OF body_layout_put_request, of "env_at t_late" "''alice''"
        "[widget ''b'', widget ''c'']" "''d1''" "[?d1]"]
    by (simp add: env_at_def bson_early bson_late iso_early_ms user_id_put_request serialize_dashboard_def iso_late matches_def)
  have g: "get_dashboard (env_at t_late) ?r3 ''d1'' [?d2] =
     (Response 200 (serialize_dashboard (Some ?d2)), [?d2])"
    by (rule get_dashboard_found) (simp_all add: env_at_def user_id_get_request matches_def)
  have u1: "get_current_user_id ?r1 = get_current_user_id ?r3"
    and u2: "get_current_user_id ?r2 = get_current_user_id ?r3"
    by (simp_all add: user_id_put_request user_id_get_request)
  have s1: "(201::nat) = 200 \<or> (201::nat) = 201" and s2: "(200::nat) = 200 \<or> (200::nat) = 201"
    by simp_all
  from put_put_get_second_layout [OF u1 u2 p1 s1 body_layout_put_request p2 s2
      body_layout_put_request g] p1 p2 g
  show ?thesis
    by (simp add: user_id_get_request env_at_def iso_late bson_late)
qed

lemma dt_le_refl: "dt_le a a"
  by (simp add: dt_le_def)

lemma dt_le_trans: "dt_le a b \<Longrightarrow> dt_le b c \<Longrightarrow> dt_le a c"
  by (auto simp: dt_le_def)

lemma bson_datetime_mono: "dt_le a b \<Longrightarrow> dt_le (bson_datetime a) (bson_datetime b)"
  by (auto simp: dt_le_def dt_key_def bson_datetime_def less_eq_prod_def less_prod_def
      intro: div_le_mono)

lemma stamped_until_mono:
  assumes "stamped_until t c" and "dt_le t t'"
  shows "stamped_until t' c"
proof -
  have "dt_le p (bson_datetime t')" if "dt_le p (bson_datetime t)" for p
    using that bson_datetime_mono [OF assms(2)] by (rule dt_le_trans)
  with assms(1) show ?thesis
    by (auto simp: stamped_until_def list_all_iff split: option.splits)
qed

lemma stamped_until_append:
  "stamped_until t (c @ [x]) =
     (stamped_until t c \<and> (case updatedAt x of None \<Rightarrow> True | Some p \<Rightarrow> dt_le p (bson_datetime t)))"
  by (simp add: stamped_until_def)

lemma stamped_until_update_first:
  "stamped_until t c \<Longrightarrow>
   stamped_until t (update_first P (\<lambda>y. y\<lparr>layout := l, updatedAt := Some (bson_datetime t)\<rparr>) c)"
  by (induction c) (auto simp: stamped_until_def dt_le_refl)

lemma stamped_until_find:
  "stamped_until t c \<Longrightarrow> find P c = Some y \<Longrightarrow> updatedAt y = Some p \<Longrightarrow>
   dt_le p (bson_datetime t)"
  by (induction c) (auto simp: stamped_until_def split: if_splits)

lemma stamped_until_get:
  assumes "stamped_until t c" and "dt_le t (utcnow e)"
  shows "stamped_until (utcnow e) (snd (get_dashboard e req did c))"
  using get_dashboard_collection [of e req did c] stamped_until_mono [OF assms]
  by (auto simp: stamped_until_append dt_le_refl)

lemma stamped_until_put:
  assumes "stamped_until t c" and "dt_le t (utcnow e)"
  shows "stamped_until (utcnow e) (snd (upsert_dashboard e req did c))"
  using upsert_dashboard_collection [of e req did c] stamped_until_mono [OF assms]
  by (auto simp: stamped_until_append stamped_until_update_first dt_le_refl)

lemma clocked_stamped: "clocked t c \<Longrightarrow> stamped_until t c"
proof (induction rule: clocked.induct)
  case (empty t)
  show ?case by (simp add: stamped_until_def)
next
  case (get t c e req dashboard_id)
  then show ?case by (simp add: stamped_until_get)
next
  case (put t c e req dashboard_id)
  then show ?case by (simp add: stamped_until_put)
qed

lemma serialized_updatedAt_suffix:
  "json_field (serialize_dashboard d) ''updatedAt'' = Some (JStr z) \<Longrightarrow> suffix ''Z'' z"
  by (auto simp: json_field_def serialize_dashboard_def suffix_def
      split: option.splits)

text \<open>
  Claim C9, as stated: each successful PUT sets \<open>updatedAt\<close> to a value at least the
  previous one of the key. The value written is the clock reading of the request and is
  compared with nothing: after a PUT at one reading, a PUT at an earlier reading
  succeeds and \<open>updatedAt\<close> goes back.
\<close>

theorem upsert_dashboard_updatedAt_counterexample:
  "upsert_dashboard (env_at t_late) (put_request ''bob'' (layout_body [widget ''a''])) ''d1'' [] =
     (Response 201
        (JObj [(''status'', JStr ''created''),
               (''dashboard'',
                  JObj [(''userId'', JStr ''bob''), (''dashboardId'', JStr ''d1''),
                        (''layout'', JList [widget ''a'']),
                        (''updatedAt'', JStr ''2024-01-02T03:05:00Z'')])]),
      [bob_doc]) \<and>
   upsert_dashboard (env_at t_early) (put_request ''bob'' (layout_body [])) ''d1'' [bob_doc] =
     (Response 200
        (JObj [(''status'', JStr ''updated''),
               (''dashboard'',
                  JObj [(''userId'', JStr ''bob''), (''dashboardId'', JStr ''d1''),
                        (''layout'', JList []),
                        (''updatedAt'', JStr ''2024-01-02T03:04:05.001000Z'')])]),
      [\<lparr>userId = ''bob'', dashboardId = ''d1'', layout = Some [],
         updatedAt = Some t_early_ms\<rparr>]) \<and>
   updatedAt bob_doc = Some t_late \<and> \<not> dt_le t_late t_early_ms"
proof -
  have u: "get_current_user_id (put_request ''bob'' b) = ''bob''" for b
    by (simp add: get_current_user_id_def put_request_def)
  have p1: "upsert_dashboard (env_at t_late) (put_request ''bob'' (layout_body [widget ''a'']))
      ''d1'' [] =
     (Response 201
        (JObj [(''status'', JStr ''created''),
               (''dashboard'',
                  JObj [(''userId'', JStr ''bob''), (''dashboardId'', JStr ''d1''),
                        (''layout'', JList [widget ''a'']),
                        (''updatedAt'', JStr ''2024-01-02T03:05:00Z'')])]),
      [bob_doc])"
    using upsert_dashboard_valid [OF body_layout_put_request, of "env_at t_late" "''bob''"
        "[widget ''a'']" "''d1''" "[]"]
    by (simp add: env_at_def bson_late u bob_doc_def serialize_dashboard_def iso_late)
  have p2: "upsert_dashboard (env_at t_early) (put_request ''bob'' (layout_body [])) ''d1''
      [bob_doc] =
     (Response 200
        (JObj [(''status'', JStr ''updated''),
               (''dashboard'',
                  JObj [(''userId'', JStr ''bob''), (''dashboardId'', JStr ''d1''),
                        (''layout'', JList []),
                        (''updatedAt'', JStr ''2024-01-02T03:04:05.001000Z'')])]),
      [\<lparr>userId = ''bob'', dashboardId = ''d1'', layout = Some [],
         updatedAt = Some t_early_ms\<rparr>])"
    using upsert_dashboard_valid [OF body_layout_put_request, of "env_at t_early" "''bob''"
        "[]" "''d1''" "[bob_doc]"]
    by (simp add: env_at_def bson_early u bob_doc_def matches_def serialize_dashboard_def
        iso_early_ms)
  from p1 p2 le_early_late show ?thesis
    by (simp add: bob_doc_def)
qed

text \<open>
  Claim C9, amended. Each successful PUT sets \<open>updatedAt\<close> of the key's document to
  the server's clock reading at that request, at the store's millisecond resolution and
  whatever the request carries. When the clock readings of the requests that built the
  collection never decreased, and the reading of this PUT is not earlier than the last
  of them, the value is at least the previous \<open>updatedAt\<close> of the key. Every serialized
  \<open>updatedAt\<close> that is a string ends in \<open>Z\<close>.
\<close>

theorem upsert_dashboard_updatedAt:
  assumes "upsert_dashboard e req did c = (Response s b, c')" and "s = 200 \<or> s = 201"
  shows "(\<exists>x. find (matches (get_current_user_id req) did) c' = Some x \<and>
              updatedAt x = Some (bson_datetime (utcnow e)) \<and>
              json_field (serialize_dashboard (Some x)) ''updatedAt'' =
                Some (JStr (isoformat (bson_datetime (utcnow e)) @ ''Z'')) \<and>
              (\<forall>t y p. clocked t c \<and> dt_le t (utcnow e) \<and>
                      find (matches (get_current_user_id req) did) c = Some y \<and>
                      updatedAt y = Some p \<longrightarrow>
                      (\<exists>q. updatedAt x = Some q \<and> dt_le p q))) \<and>
         (\<forall>d z. json_field (serialize_dashboard d) ''updatedAt'' = Some (JStr z) \<longrightarrow>
                 suffix ''Z'' z)"
proof -
  from upsert_dashboard_stored [OF assms] obtain x where
    x: "find (matches (get_current_user_id req) did) c' = Some x"
       "updatedAt x = Some (bson_datetime (utcnow e))"
    by blast
  have ser: "json_field (serialize_dashboard (Some x)) ''updatedAt'' =
          Some (JStr (isoformat (bson_datetime (utcnow e)) @ ''Z''))"
    using x(2) by (simp add: json_field_def serialize_dashboard_def)
  have prev: "dt_le p (bson_datetime (utcnow e))"
    if "clocked t c" and "dt_le t (utcnow e)"
      and "find (matches (get_current_user_id req) did) c = Some y" and "updatedAt y = Some p"
    for t y p
  proof -
    have "stamped_until (utcnow e) c"
      using clocked_stamped [OF that(1)] that(2) by (rule stamped_until_mono)
    then show ?thesis using that(3,4) by (rule stamped_until_find)
  qed
  from x ser prev serialized_updatedAt_suffix show ?thesis
    by blast
qed

theorem upsert_dashboard_updatedAt_witness:
  "clocked t_early
     [\<lparr>userId = ''bob'', dashboardId = ''d1'', layout = Some [],
        updatedAt = Some t_early_ms\<rparr>] \<and>
   dt_le t_early (utcnow (env_at t_late)) \<and>
   upsert_dashboard (env_at t_late)
       (put_request ''bob''
          (JObj [(''layout'', JList [widget ''a'']),
                 (''updatedAt'', JStr ''1999-01-01T00:00:00Z'')]))
       ''d1'' [\<lparr>userId = ''bob'', dashboardId = ''d1'', layout = Some [],
                 updatedAt = Some t_early_ms\<rparr>] =
     (Response 200
        (JObj [(''status'', JStr ''updated''),
               (''dashboard'',
                  JObj [(''userId'', JStr ''bob''), (''dashboardId'', JStr ''d1''),
                        (''layout'', JList [widget ''a'']),
                        (''updatedAt'', JStr ''2024-01-02T03:05:00Z'')])]),
      [bob_doc]) \<and>
   ((200::nat) = 200 \<or> (200::nat) = 201) \<and>
   find (matches ''bob'' ''d1'') [bob_doc] = Some bob_doc \<and>
   updatedAt bob_doc = Some t_late \<and>
   dt_le t_early_ms t_late \<and>
   suffix ''Z'' ''2024-01-02T03:05:00Z''"
proof -
  let ?req = "put_request ''bob''
          (JObj [(''layout'', JList [widget ''a'']),
                 (''updatedAt'', JStr ''1999-01-01T00:00:00Z'')])"
  let ?c = "[\<lparr>userId = ''bob'', dashboardId = ''d1'', layout = Some [],
                updatedAt = Some t_early_ms\<rparr>]"
  have u: "get_current_user_id (put_request ''bob'' b) = ''bob''" for b
    by (simp add: get_current_user_id_def put_request_def)
  have ug: "get_current_user_id (get_request ''bob'') = ''bob''"
    by (simp add: get_current_user_id_def get_request_def)
  have bl: "body_layout ?req = Inr (JList [widget ''a''])"
    by (simp add: put_request_def get_json_silent_def py_or_def dict_get_def)
  have g: "snd (get_dashboard (env_at t_early) (get_request ''bob'') ''d1'' []) = ?c"
    using get_dashboard_missing [of "env_at t_early" "get_request ''bob''" "''d1''" "[]"]
    by (simp add: env_at_def bson_early ug)
  have "clocked (utcnow (env_at t_early))
          (snd (get_dashboard (env_at t_early) (get_request ''bob'') ''d1'' []))"
    by (rule clocked.get [OF clocked.empty [of t_early]]) (simp add: env_at_def dt_le_refl)
  then have ck: "clocked t_early ?c"
    by (simp add: g) (simp add: env_at_def)
  have le: "dt_le t_early (utcnow (env_at t_late))"
    using le_early_late by (simp add: env_at_def)
  have run: "upsert_dashboard (env_at t_late) ?req ''d1'' ?c =
     (Response 200
        (JObj [(''status'', JStr ''updated''),
               (''dashboard'',
                  JObj [(''userId'', JStr ''bob''), (''dashboardId'', JStr ''d1''),
                        (''layout'', JList [widget ''a'']),
                        (''updatedAt'', JStr ''2024-01-02T03:05:00Z'')])]),
      [bob_doc])"
    using upsert_dashboard_valid [OF bl, of "env_at t_late" "''d1''" ?c]
    by (simp add: env_at_def bson_late u bob_doc_def matches_def serialize_dashboard_def
        iso_late)
  have st: "(200::nat) = 200 \<or> (200::nat) = 201" by simp
  from upsert_dashboard_updatedAt [OF run st] ck le run le_early_late show ?thesis
    by (simp add: matches_def suffix_def bob_doc_def)
qed

end
